theory Spec2Isabelle
  imports Complex_Main
begin

section \<open>Network visualisation notebook: arrays, errors and the environment\<close>

text \<open>
  The notebook \<^verbatim>\<open>assignment2/NetworkVisualization-TensorFlow.ipynb\<close> works on numpy
  arrays of rank 3 and 4. An array is modelled as its shape together with the value at
  each index; only the values at indices inside the shape are meaningful. Entries are
  real numbers: the model is the exact-arithmetic reading of the float code (no rounding,
  no overflow). The one place where the notebook's own arithmetic leaves the reals, the
  division by a zero norm in \<^verbatim>\<open>make_fooling_image\<close>, is modelled explicitly below.
\<close>

record ndarray3 =
  shape3 :: "nat \<times> nat \<times> nat"
  at3 :: "nat \<Rightarrow> nat \<Rightarrow> nat \<Rightarrow> real"

record ndarray4 =
  shape4 :: "nat \<times> nat \<times> nat \<times> nat"
  at4 :: "nat \<Rightarrow> nat \<Rightarrow> nat \<Rightarrow> nat \<Rightarrow> real"

text \<open>The indices of an array of rank 4 that lie inside its shape.\<close>

definition valid4 :: "ndarray4 \<Rightarrow> nat \<Rightarrow> nat \<Rightarrow> nat \<Rightarrow> nat \<Rightarrow> bool" where
  "valid4 X n h w c =
     (case shape4 X of (N, H, W, C) \<Rightarrow> n < N \<and> h < H \<and> w < W \<and> c < C)"

text \<open>The exceptions that the notebook's code, or a library call it makes, can raise.\<close>

datatype error =
    ValueError string
  | AssertionError
  | ZeroDivisionError
  | KeyError
  | InvalidArgumentError

subsection \<open>\<^verbatim>\<open>np.roll\<close> along one axis\<close>

text \<open>
  \<^verbatim>\<open>np.roll(a, shift, axis)\<close> moves the entry at position \<open>i\<close> of the axis to position
  \<open>(i + shift) mod n\<close>, so the result holds at position \<open>i\<close> the entry that was at
  \<open>(i - shift) mod n\<close>. The notebook rolls along axis 1 and axis 2 only.
\<close>

definition roll_index :: "nat \<Rightarrow> int \<Rightarrow> nat \<Rightarrow> nat" where
  "roll_index n shift i = nat ((int i - shift) mod int n)"

definition np_roll_axis1 :: "ndarray4 \<Rightarrow> int \<Rightarrow> ndarray4" where
  "np_roll_axis1 X shift =
     (case shape4 X of (N, H, W, C) \<Rightarrow>
        X\<lparr>at4 := \<lambda>n h w c. at4 X n (roll_index H shift h) w c\<rparr>)"

definition np_roll_axis2 :: "ndarray4 \<Rightarrow> int \<Rightarrow> ndarray4" where
  "np_roll_axis2 X shift =
     (case shape4 X of (N, H, W, C) \<Rightarrow>
        X\<lparr>at4 := \<lambda>n h w c. at4 X n h (roll_index W shift w) c\<rparr>)"

text \<open>The jitter of \<^verbatim>\<open>create_class_visualization\<close> and the step that undoes it:
  \<^verbatim>\<open>X = np.roll(np.roll(X, ox, 1), oy, 2)\<close> and
  \<^verbatim>\<open>X = np.roll(np.roll(X, -ox, 1), -oy, 2)\<close>.\<close>

definition jitter :: "ndarray4 \<Rightarrow> int \<Rightarrow> int \<Rightarrow> ndarray4" where
  "jitter X ox oy = np_roll_axis2 (np_roll_axis1 X ox) oy"

definition undo_jitter :: "ndarray4 \<Rightarrow> int \<Rightarrow> int \<Rightarrow> ndarray4" where
  "undo_jitter X ox oy = np_roll_axis2 (np_roll_axis1 X (- ox)) (- oy)"

text \<open>Two arrays are the same array when they have the same shape and hold the same
  value at every index inside it.\<close>

definition same_array :: "ndarray4 \<Rightarrow> ndarray4 \<Rightarrow> bool" where
  "same_array X Y =
     (shape4 X = shape4 Y \<and>
      (case shape4 X of (N, H, W, C) \<Rightarrow>
         list_all (\<lambda>n. list_all (\<lambda>h. list_all (\<lambda>w. list_all (\<lambda>c.
           at4 X n h w c = at4 Y n h w c) [0..<C]) [0..<W]) [0..<H]) [0..<N]))"

subsection \<open>Elementwise operations and the L2 norm\<close>

definition np_add :: "ndarray4 \<Rightarrow> ndarray4 \<Rightarrow> ndarray4" where
  \<comment> \<open>\<^verbatim>\<open>X += Y\<close> for two arrays of one shape; the result keeps the shape of \<open>X\<close>.\<close>
  "np_add X Y = X\<lparr>at4 := \<lambda>n h w c. at4 X n h w c + at4 Y n h w c\<rparr>"

definition np_scale :: "real \<Rightarrow> ndarray4 \<Rightarrow> ndarray4" where
  "np_scale k X = X\<lparr>at4 := \<lambda>n h w c. k * at4 X n h w c\<rparr>"

definition np_abs :: "ndarray4 \<Rightarrow> ndarray4" where
  "np_abs X = X\<lparr>at4 := \<lambda>n h w c. \<bar>at4 X n h w c\<bar>\<rparr>"

definition np_clip :: "ndarray4 \<Rightarrow> (nat \<Rightarrow> real) \<Rightarrow> (nat \<Rightarrow> real) \<Rightarrow> ndarray4" where
  \<comment> \<open>\<^verbatim>\<open>np.clip(X, lo, hi)\<close> with bounds of shape (3,), broadcast along the last axis:
      \<^verbatim>\<open>minimum(maximum(X, lo), hi)\<close>.\<close>
  "np_clip X lo hi = X\<lparr>at4 := \<lambda>n h w c. min (max (at4 X n h w c) (lo c)) (hi c)\<rparr>"

definition sum4 :: "nat \<times> nat \<times> nat \<times> nat \<Rightarrow> (nat \<Rightarrow> nat \<Rightarrow> nat \<Rightarrow> nat \<Rightarrow> real) \<Rightarrow> real" where
  "sum4 sh f =
     (case sh of (N, H, W, C) \<Rightarrow>
        sum_list (map (\<lambda>n. sum_list (map (\<lambda>h. sum_list (map (\<lambda>w.
          sum_list (map (\<lambda>c. f n h w c) [0..<C])) [0..<W])) [0..<H])) [0..<N]))"

definition tf_norm :: "ndarray4 \<Rightarrow> real" where
  \<comment> \<open>\<^verbatim>\<open>tf.norm\<close>: the square root of the sum of the squares of all entries.\<close>
  "tf_norm G = sqrt (sum4 (shape4 G) (\<lambda>n h w c. (at4 G n h w c)\<^sup>2))"

subsection \<open>The pretrained model and the TensorFlow session\<close>

text \<open>
  A tensor value that the session returns, or that the notebook holds, is either an
  array of reals or an array whose every entry is NaN. The second arises from the
  notebook's own division by a norm that is zero.
\<close>

datatype tensor = Arr ndarray4 | NaNs

text \<open>
  The class \<^verbatim>\<open>SqueezeNet\<close> and the session are not part of the repository; they are
  parameters of the model:
  \<^item> \<open>argmax_scores X\<close> is \<^verbatim>\<open>np.argmax(sess.run(model.classifier, {model.image: X}))\<close>;
  \<^item> \<open>score_grad X j k\<close> is the gradient of the score \<^verbatim>\<open>model.classifier[j, k]\<close> with respect
    to the pixels of \<^verbatim>\<open>model.image\<close>, evaluated at the image batch \<open>X\<close>;
  \<^item> \<open>loss_grad target_y l2_reg X\<close> is the gradient, at \<open>X\<close>, of the loss
    \<^verbatim>\<open>model.classifier[0, target_y] - l2_reg * tf.norm(model.image)\<close> that
    \<^verbatim>\<open>create_class_visualization\<close> builds.
  A gradient that \<^verbatim>\<open>tf.gradients\<close> takes with respect to \<^verbatim>\<open>model.image\<close> has the shape
  of the image that is fed.
\<close>

record model =
  argmax_scores :: "tensor \<Rightarrow> int"
  score_grad :: "ndarray4 \<Rightarrow> nat \<Rightarrow> int \<Rightarrow> nat \<Rightarrow> nat \<Rightarrow> nat \<Rightarrow> nat \<Rightarrow> real"
  loss_grad :: "int \<Rightarrow> real \<Rightarrow> ndarray4 \<Rightarrow> nat \<Rightarrow> nat \<Rightarrow> nat \<Rightarrow> nat \<Rightarrow> real"

subsection \<open>Loading the pretrained model\<close>

definition SAVE_PATH :: string where
  "SAVE_PATH = ''deeplearning/datasets/squeezenet.ckpt''"

text \<open>
  The cell that loads the model. \<open>os_path_exists\<close> is the state of the file system and
  \<open>SqueezeNet\<close> the constructor of the model class, which may fail on its own.
  \<^verbatim>\<open>
  if not os.path.exists(SAVE_PATH):
      raise ValueError("You need to download SqueezeNet!")
  model = SqueezeNet(save_path=SAVE_PATH, sess=sess)
  \<close>
\<close>

definition load_model :: "(string \<Rightarrow> bool) \<Rightarrow> (string \<Rightarrow> error + 'm) \<Rightarrow> error + 'm" where
  "load_model os_path_exists SqueezeNet =
     (if \<not> os_path_exists SAVE_PATH then Inl (ValueError ''You need to download SqueezeNet!'')
      else SqueezeNet SAVE_PATH)"

subsection \<open>\<^verbatim>\<open>compute_saliency_maps\<close>\<close>

text \<open>
  \<^verbatim>\<open>correct_scores\<close> is the tensor of the scores \<^verbatim>\<open>model.classifier[j, y[j]]\<close>, one for each
  example \<open>j\<close>. \<^verbatim>\<open>tf.gradients(ys=correct_scores, xs=model.image)\<close> returns a list with one
  tensor for \<^verbatim>\<open>model.image\<close>: the gradient of the sum of the entries of \<^verbatim>\<open>correct_scores\<close>.
\<close>

definition tf_gradients_correct_scores :: "model \<Rightarrow> ndarray4 \<Rightarrow> int list \<Rightarrow> ndarray4 list" where
  "tf_gradients_correct_scores M X y =
     [\<lparr>shape4 = shape4 X,
       at4 = \<lambda>n h w c. sum_list (map (\<lambda>j. score_grad M X j (y ! j) n h w c)
                                   [0..<fst (shape4 X)])\<rparr>]"

fun tf_reduce_sum_axis0 :: "ndarray4 list \<Rightarrow> ndarray4" where
  \<comment> \<open>\<^verbatim>\<open>tf.reduce_sum(ts, axis=0)\<close> on a list of tensors of one shape: their sum. The list
      is never empty here.\<close>
  "tf_reduce_sum_axis0 [] = \<lparr>shape4 = (0, 0, 0, 0), at4 = \<lambda>n h w c. 0\<rparr>"
| "tf_reduce_sum_axis0 (t # ts) =
     \<lparr>shape4 = shape4 t, at4 = \<lambda>n h w c. sum_list (map (\<lambda>u. at4 u n h w c) (t # ts))\<rparr>"

definition max_list :: "real list \<Rightarrow> real" where
  "max_list xs = fold max (tl xs) (hd xs)"

definition np_max_axis3 :: "ndarray4 \<Rightarrow> error + ndarray3" where
  \<comment> \<open>\<^verbatim>\<open>np.max(A, axis=3)\<close>; a reduction over an axis of size zero raises.\<close>
  "np_max_axis3 A =
     (case shape4 A of (N, H, W, C) \<Rightarrow>
        if C = 0 then Inl (ValueError ''zero-size array to reduction operation maximum'')
        else Inr \<lparr>shape3 = (N, H, W),
                  at3 = \<lambda>n h w. max_list (map (\<lambda>c. at4 A n h w c) [0..<C])\<rparr>)"

definition compute_saliency_maps :: "model \<Rightarrow> ndarray4 \<Rightarrow> int list \<Rightarrow> error + ndarray3" where
  \<comment> \<open>\<^verbatim>\<open>tf.stack((tf.range(X.shape[0]), model.labels), axis=1)\<close> needs one label for each
      example.\<close>
  "compute_saliency_maps M X y =
     (if length y \<noteq> fst (shape4 X) then Inl InvalidArgumentError
      else
        let grad_image = tf_reduce_sum_axis0 (tf_gradients_correct_scores M X y);
            saliency = grad_image
        in np_max_axis3 (np_abs saliency))"

subsection \<open>\<^verbatim>\<open>make_fooling_image\<close>\<close>

text \<open>
  Arrays are objects on a heap and a variable holds a reference, so that the effect of
  the in-place update \<^verbatim>\<open>X_fooling += ...\<close> on the caller's array can be stated. A
  reference is an index into the heap; \<^verbatim>\<open>X.copy()\<close> allocates a new object.
\<close>

type_synonym heap = "tensor list"

definition np_copy :: "heap \<Rightarrow> nat \<Rightarrow> nat \<times> heap" where
  "np_copy hp r = (length hp, hp @ [hp ! r])"

definition learning_rate_fooling :: real where
  "learning_rate_fooling = 1"

definition n_iterations :: nat where
  "n_iterations = 100"

text \<open>
  \<^verbatim>\<open>
  target_score = model.classifier[0, target_y]
  g = tf.gradients(target_score, model.image)
  dX = learning_rate * g / tf.norm(g)
  \<close>
  \<open>g\<close> is the list of the one gradient tensor \<open>G\<close>, and \<^verbatim>\<open>dX_val, *_ = sess.run(dX, ...)\<close>
  takes the one slice of the quotient, which has the shape of \<open>G\<close>. (With the constant
  \<^verbatim>\<open>learning_rate = 1\<close>, the product \<^verbatim>\<open>learning_rate * g\<close> is \<open>g\<close> itself.) When the norm is
  zero every entry of \<open>G\<close> is zero (lemma \<open>tf_norm_zero\<close> below), every quotient is
  \<open>0 / 0\<close>, and the session returns an array of NaN. \<open>target_y\<close> is a class index in the
  range the docstring gives, so that indexing the scores with it does not fail.
\<close>

definition target_gradient :: "model \<Rightarrow> int \<Rightarrow> ndarray4 \<Rightarrow> ndarray4" where
  "target_gradient M target_y X = \<lparr>shape4 = shape4 X, at4 = score_grad M X 0 target_y\<rparr>"

definition dX_val :: "model \<Rightarrow> int \<Rightarrow> ndarray4 \<Rightarrow> tensor" where
  "dX_val M target_y X =
     (let G = target_gradient M target_y X in
      if tf_norm G = 0 then NaNs
      else Arr (G\<lparr>at4 := \<lambda>n h w c. learning_rate_fooling * at4 G n h w c / tf_norm G\<rparr>))"

definition fooling_update :: "model \<Rightarrow> int \<Rightarrow> tensor \<Rightarrow> tensor" where
  \<comment> \<open>\<^verbatim>\<open>X_fooling += dX_val[:, :, :, :]\<close>; a sum with a NaN is NaN.\<close>
  "fooling_update M target_y T =
     (case T of
        NaNs \<Rightarrow> NaNs
      | Arr X \<Rightarrow> (case dX_val M target_y X of NaNs \<Rightarrow> NaNs | Arr d \<Rightarrow> Arr (np_add X d)))"

text \<open>The state of the loop: the counter \<open>i\<close>, the prediction \<open>y\<close>, and the heap; \<open>r\<close>
  is the reference held by \<^verbatim>\<open>X_fooling\<close>. The loop also prints the loss and the score,
  which changes nothing here.\<close>

definition fooling_body :: "model \<Rightarrow> int \<Rightarrow> nat \<Rightarrow> nat \<times> int \<times> heap \<Rightarrow> nat \<times> int \<times> heap" where
  "fooling_body M target_y r s =
     (case s of (i, y, hp) \<Rightarrow>
        let hp' = hp[r := fooling_update M target_y (hp ! r)];
            y' = argmax_scores M (hp' ! r)
        in (i + 1, y', hp'))"

function fooling_loop :: "model \<Rightarrow> int \<Rightarrow> nat \<Rightarrow> nat \<times> int \<times> heap \<Rightarrow> nat \<times> int \<times> heap" where
  "fooling_loop M target_y r (i, y, hp) =
     (if i < n_iterations \<and> y \<noteq> target_y
      then fooling_loop M target_y r (fooling_body M target_y r (i, y, hp))
      else (i, y, hp))"
  by pat_completeness auto
termination
  by (relation "measure (\<lambda>(M, target_y, r, i, y, hp). n_iterations - i)")
     (auto simp: fooling_body_def Let_def)

definition make_fooling_image :: "model \<Rightarrow> heap \<Rightarrow> nat \<Rightarrow> int \<Rightarrow> nat \<times> heap" where
  \<comment> \<open>Takes the heap and the reference \<open>X\<close>; returns the reference \<^verbatim>\<open>X_fooling\<close> and the
      heap after the call.\<close>
  "make_fooling_image M hp X target_y =
     (case np_copy hp X of (X_fooling, hp1) \<Rightarrow>
        let y = argmax_scores M (hp1 ! X_fooling) in
        case fooling_loop M target_y X_fooling (0, y, hp1) of (i, y', hp') \<Rightarrow>
          (X_fooling, hp'))"

subsection \<open>\<^verbatim>\<open>blur_image\<close>\<close>

text \<open>
  \<^verbatim>\<open>scipy.ndimage.filters.gaussian_filter1d(X, sigma, axis)\<close> with its defaults
  (\<^verbatim>\<open>order=0, mode='reflect', truncate=4.0\<close>): the kernel has radius
  \<^verbatim>\<open>int(truncate * sigma + 0.5)\<close> and weights \<^verbatim>\<open>exp(-0.5 / sigma**2 * x**2)\<close> divided by their
  sum; the line is extended by reflection (\<^verbatim>\<open>d c b a | a b c d | d c b a\<close>).
\<close>

definition gaussian_kernel1d :: "real \<Rightarrow> nat \<Rightarrow> real list" where
  "gaussian_kernel1d sigma radius =
     (let phi_x = map (\<lambda>x. exp (- (1 / 2) / (sigma * sigma) * (real_of_int x)\<^sup>2))
                      [- int radius..int radius]
      in map (\<lambda>p. p / sum_list phi_x) phi_x)"

definition reflect_index :: "nat \<Rightarrow> int \<Rightarrow> nat" where
  "reflect_index n i =
     (let m = i mod (2 * int n) in if m < int n then nat m else nat (2 * int n - 1 - m))"

definition correlate1d :: "real list \<Rightarrow> nat \<Rightarrow> (nat \<Rightarrow> real) \<Rightarrow> nat \<Rightarrow> real" where
  \<comment> \<open>Entry \<open>i\<close> of the filtered line of length \<open>n\<close>.\<close>
  "correlate1d weights n line i =
     sum_list (map (\<lambda>j. weights ! j *
                         line (reflect_index n (int i + int j - int (length weights div 2))))
                   [0..<length weights])"

definition filter_weights :: "real \<Rightarrow> real list" where
  "filter_weights sigma = rev (gaussian_kernel1d sigma (nat \<lfloor>4 * sigma + 1 / 2\<rfloor>))"

definition gaussian_filter1d_axis1 :: "ndarray4 \<Rightarrow> real \<Rightarrow> ndarray4" where
  "gaussian_filter1d_axis1 X sigma =
     (case shape4 X of (N, H, W, C) \<Rightarrow>
        X\<lparr>at4 := \<lambda>n h w c. correlate1d (filter_weights sigma) H (\<lambda>k. at4 X n k w c) h\<rparr>)"

definition gaussian_filter1d_axis2 :: "ndarray4 \<Rightarrow> real \<Rightarrow> ndarray4" where
  "gaussian_filter1d_axis2 X sigma =
     (case shape4 X of (N, H, W, C) \<Rightarrow>
        X\<lparr>at4 := \<lambda>n h w c. correlate1d (filter_weights sigma) W (\<lambda>k. at4 X n h k c) w\<rparr>)"

definition blur_image :: "ndarray4 \<Rightarrow> real \<Rightarrow> ndarray4" where
  "blur_image X sigma = gaussian_filter1d_axis2 (gaussian_filter1d_axis1 X sigma) sigma"

subsection \<open>\<^verbatim>\<open>create_class_visualization\<close>\<close>

text \<open>
  What the function takes from outside the notebook: \<^verbatim>\<open>preprocess_image\<close>,
  \<^verbatim>\<open>SQUEEZENET_MEAN\<close> and \<^verbatim>\<open>SQUEEZENET_STD\<close> of \<^verbatim>\<open>deeplearning.image_utils\<close>, the global
  dictionary \<^verbatim>\<open>class_names\<close>, and the draws of the random generator: \<open>rand h w c\<close> is the
  entry of \<^verbatim>\<open>np.random.rand(224, 224, 3)\<close> at \<open>(h, w, c)\<close>, and \<open>randint t\<close> is the pair
  \<^verbatim>\<open>np.random.randint(-max_jitter, max_jitter + 1, 2)\<close> drawn in iteration \<open>t\<close>.
\<close>

record environment =
  preprocess_image :: "ndarray3 \<Rightarrow> ndarray3"
  SQUEEZENET_MEAN :: "real list"
  SQUEEZENET_STD :: "real list"
  class_names :: "int \<Rightarrow> string option"
  rand :: "nat \<Rightarrow> nat \<Rightarrow> nat \<Rightarrow> real"
  randint :: "nat \<Rightarrow> int \<times> int"

record kwargs =
  l2_reg :: real
  learning_rate :: real
  num_iterations :: int
  blur_every :: int
  max_jitter :: int
  show_every :: int

definition default_kwargs :: kwargs where
  "default_kwargs =
     \<lparr>l2_reg = 1 / 1000, learning_rate = 25, num_iterations = 100, blur_every = 10,
      max_jitter = 16, show_every = 25\<rparr>"

definition np_random_rand :: "environment \<Rightarrow> nat \<Rightarrow> nat \<Rightarrow> nat \<Rightarrow> ndarray3" where
  "np_random_rand E H W C = \<lparr>shape3 = (H, W, C), at3 = rand E\<rparr>"

definition np_scale3 :: "real \<Rightarrow> ndarray3 \<Rightarrow> ndarray3" where
  "np_scale3 k X = X\<lparr>at3 := \<lambda>h w c. k * at3 X h w c\<rparr>"

definition expand_dims :: "ndarray3 \<Rightarrow> ndarray4" where
  \<comment> \<open>\<^verbatim>\<open>X[None]\<close>: a new leading axis of size 1.\<close>
  "expand_dims X = (case shape3 X of (H, W, C) \<Rightarrow> \<lparr>shape4 = (1, H, W, C), at4 = \<lambda>n. at3 X\<rparr>)"

definition noise :: "environment \<Rightarrow> ndarray3" where
  \<comment> \<open>\<^verbatim>\<open>255 * np.random.rand(224, 224, 3)\<close>\<close>
  "noise E = np_scale3 255 (np_random_rand E 224 224 3)"

definition initial_image :: "environment \<Rightarrow> ndarray4" where
  \<comment> \<open>\<^verbatim>\<open>X = preprocess_image(X)[None]\<close>\<close>
  "initial_image E = expand_dims (preprocess_image E (noise E))"

definition clip_lo :: "environment \<Rightarrow> nat \<Rightarrow> real" where
  \<comment> \<open>\<^verbatim>\<open>-SQUEEZENET_MEAN / SQUEEZENET_STD\<close>\<close>
  "clip_lo E c = - (SQUEEZENET_MEAN E ! c) / (SQUEEZENET_STD E ! c)"

definition clip_hi :: "environment \<Rightarrow> nat \<Rightarrow> real" where
  \<comment> \<open>\<^verbatim>\<open>(1.0 - SQUEEZENET_MEAN) / SQUEEZENET_STD\<close>\<close>
  "clip_hi E c = (1 - SQUEEZENET_MEAN E ! c) / (SQUEEZENET_STD E ! c)"

definition sess_run_grad :: "model \<Rightarrow> kwargs \<Rightarrow> int \<Rightarrow> ndarray4 \<Rightarrow> ndarray4 list" where
  \<comment> \<open>\<^verbatim>\<open>sess.run(grad, feed_dict={model.image: X})\<close>: a list of one array.\<close>
  "sess_run_grad M kw target_y X =
     [\<lparr>shape4 = shape4 X, at4 = loss_grad M target_y (l2_reg kw) X\<rparr>]"

definition gradient_step :: "model \<Rightarrow> kwargs \<Rightarrow> int \<Rightarrow> ndarray4 \<Rightarrow> int \<times> int \<Rightarrow> error + ndarray4" where
  \<comment> \<open>Jitter, gradient step, and the step that undoes the jitter.\<close>
  "gradient_step M kw target_y X offs =
     (case offs of (ox, oy) \<Rightarrow>
        let X1 = jitter X ox oy in
        case sess_run_grad M kw target_y X1 of
          [] \<Rightarrow> Inl (ValueError ''not enough values to unpack'')
        | grad_val # _ \<Rightarrow>
            if shape4 grad_val \<noteq> (1, 224, 224, 3) then Inl AssertionError
            else Inr (undo_jitter (np_add X1 (np_scale (learning_rate kw) grad_val)) ox oy))"

definition show_image :: "environment \<Rightarrow> kwargs \<Rightarrow> int \<Rightarrow> nat \<Rightarrow> error option" where
  \<comment> \<open>The block that shows the image: of its effects only the exceptions are kept.
      \<^verbatim>\<open>if t == 0 or (t + 1) % show_every == 0 or t == num_iterations - 1:\<close>
      evaluates from the left, and the body looks \<^verbatim>\<open>class_names[target_y]\<close> up.\<close>
  "show_image E kw target_y t =
     (let lookup = (case class_names E target_y of None \<Rightarrow> Some KeyError | Some name \<Rightarrow> None)
      in if t = 0 then lookup
         else if show_every kw = 0 then Some ZeroDivisionError
         else if (int t + 1) mod show_every kw = 0 \<or> int t = num_iterations kw - 1 then lookup
         else None)"

definition ccv_iteration ::
  "model \<Rightarrow> environment \<Rightarrow> kwargs \<Rightarrow> int \<Rightarrow> nat \<Rightarrow> ndarray4 \<Rightarrow> error + ndarray4" where
  \<comment> \<open>The body of \<^verbatim>\<open>for t in range(num_iterations)\<close>.\<close>
  "ccv_iteration M E kw target_y t X =
     (if max_jitter kw + 1 \<le> - max_jitter kw then Inl (ValueError ''low >= high'')
      else
        case gradient_step M kw target_y X (randint E t) of
          Inl e \<Rightarrow> Inl e
        | Inr X3 \<Rightarrow>
            let X4 = np_clip X3 (clip_lo E) (clip_hi E) in
            if blur_every kw = 0 then Inl ZeroDivisionError
            else
              let X5 = (if int t mod blur_every kw = 0 then blur_image X4 (1 / 2) else X4) in
              case show_image E kw target_y t of
                Some e \<Rightarrow> Inl e
              | None \<Rightarrow> Inr X5)"

fun ccv_loop ::
  "model \<Rightarrow> environment \<Rightarrow> kwargs \<Rightarrow> int \<Rightarrow> nat \<Rightarrow> nat \<Rightarrow> ndarray4 \<Rightarrow> error + ndarray4" where
  \<comment> \<open>\<open>ccv_loop M E kw target_y t k X\<close> runs the \<open>k\<close> iterations \<open>t, t + 1, ...\<close> from \<open>X\<close>.\<close>
  "ccv_loop M E kw target_y t 0 X = Inr X"
| "ccv_loop M E kw target_y t (Suc k) X =
     (case ccv_iteration M E kw target_y t X of
        Inl e \<Rightarrow> Inl e
      | Inr X' \<Rightarrow> ccv_loop M E kw target_y (Suc t) k X')"

definition create_class_visualization ::
  "model \<Rightarrow> environment \<Rightarrow> kwargs \<Rightarrow> int \<Rightarrow> error + ndarray4" where
  "create_class_visualization M E kw target_y =
     ccv_loop M E kw target_y 0 (nat (num_iterations kw)) (initial_image E)"


subsection \<open>One iteration without its error branches\<close>

text \<open>
  Two names for the parts of an iteration that succeeds: the image after the jitter,
  the gradient step and the step that undoes the jitter, and what the clip and the blur
  make of it.
\<close>

definition ascent_step :: "model \<Rightarrow> kwargs \<Rightarrow> int \<Rightarrow> ndarray4 \<Rightarrow> int \<times> int \<Rightarrow> ndarray4" where
  "ascent_step M kw target_y X offs =
     (case offs of (ox, oy) \<Rightarrow>
        let X1 = jitter X ox oy;
            grad_val = \<lparr>shape4 = shape4 X1, at4 = loss_grad M target_y (l2_reg kw) X1\<rparr>
        in undo_jitter (np_add X1 (np_scale (learning_rate kw) grad_val)) ox oy)"

definition clip_then_blur :: "environment \<Rightarrow> kwargs \<Rightarrow> nat \<Rightarrow> ndarray4 \<Rightarrow> ndarray4" where
  "clip_then_blur E kw t X =
     (let Y = np_clip X (clip_lo E) (clip_hi E)
      in if int t mod blur_every kw = 0 then blur_image Y (1 / 2) else Y)"

subsection \<open>Clipping and blurring, entry by entry\<close>

text \<open>
  Written from the description of the regulariser, in elementary arithmetic, to be
  compared with what the loop computes.
  \<^item> An entry clipped to the interval \<open>[-MEAN / STD, (1 - MEAN) / STD]\<close> of its channel.
  \<^item> The Gaussian kernel for \<open>sigma = 0.5\<close>: radius 2, and the five weights
    \<open>exp (-2 k\<^sup>2)\<close> for \<open>k = -2, ..., 2\<close> divided by their sum.
  \<^item> The position that an index up to one length outside a line of length \<open>n\<close> is
    reflected to.
\<close>

definition clipped_entry :: "environment \<Rightarrow> ndarray4 \<Rightarrow> nat \<Rightarrow> nat \<Rightarrow> nat \<Rightarrow> nat \<Rightarrow> real" where
  "clipped_entry E Y n h w c =
     min (max (at4 Y n h w c) (- (SQUEEZENET_MEAN E ! c) / (SQUEEZENET_STD E ! c)))
         ((1 - SQUEEZENET_MEAN E ! c) / (SQUEEZENET_STD E ! c))"

definition sigma_half_weights :: "real list" where
  "sigma_half_weights =
     (let s = exp (- 8) + exp (- 2) + 1 + exp (- 2) + exp (- 8)
      in [exp (- 8) / s, exp (- 2) / s, 1 / s, exp (- 2) / s, exp (- 8) / s])"

definition reflected :: "nat \<Rightarrow> int \<Rightarrow> nat" where
  "reflected n i =
     (if i < 0 then nat (- i - 1) else if int n \<le> i then nat (2 * int n - 1 - i) else nat i)"

text \<open>Every entry inside the shape lies in the clip interval of its channel.\<close>

definition in_clip_interval :: "environment \<Rightarrow> ndarray4 \<Rightarrow> bool" where
  "in_clip_interval E X =
     (case shape4 X of (N, H, W, C) \<Rightarrow>
        list_all (\<lambda>n. list_all (\<lambda>h. list_all (\<lambda>w. list_all (\<lambda>c.
          clip_lo E c \<le> at4 X n h w c \<and> at4 X n h w c \<le> clip_hi E c)
          [0..<C]) [0..<W]) [0..<H]) [0..<N])"

subsection \<open>Example inputs\<close>

text \<open>
  A model whose scores treat the examples of a batch separately, a model whose
  target-class score has gradient zero (a class whose units are all switched off), and an
  environment with the values that \<^verbatim>\<open>deeplearning.image_utils\<close> is known to use.
\<close>

definition example_model :: model where
  "example_model =
     \<lparr>argmax_scores = (\<lambda>T. case T of NaNs \<Rightarrow> 0 | Arr A \<Rightarrow> if at4 A 0 0 0 0 = 0 then 3 else 6),
      score_grad = (\<lambda>X j k n h w c. if j = n then (real c - 1) * real_of_int k else 0),
      loss_grad = (\<lambda>target_y l2 X n h w c. real c - l2 * at4 X n h w c)\<rparr>"

definition dead_model :: model where
  "dead_model =
     \<lparr>argmax_scores = (\<lambda>T. 0), score_grad = (\<lambda>X j k n h w c. 0),
      loss_grad = (\<lambda>target_y l2 X n h w c. 0)\<rparr>"

definition zero_image :: ndarray4 where
  "zero_image = \<lparr>shape4 = (1, 224, 224, 3), at4 = \<lambda>n h w c. 0\<rparr>"

definition example_batch :: ndarray4 where
  "example_batch =
     \<lparr>shape4 = (5, 224, 224, 3), at4 = \<lambda>n h w c. real (n + h + w + c) / 100\<rparr>"

definition example_environment :: environment where
  "example_environment =
     \<lparr>preprocess_image =
        (\<lambda>X. X\<lparr>at3 := \<lambda>h w c.
                 (at3 X h w c / 255 - [485 / 1000, 456 / 1000, 406 / 1000] ! c) /
                 ([229 / 1000, 224 / 1000, 225 / 1000] ! c)\<rparr>),
      SQUEEZENET_MEAN = [485 / 1000, 456 / 1000, 406 / 1000],
      SQUEEZENET_STD = [229 / 1000, 224 / 1000, 225 / 1000],
      class_names = (\<lambda>k. if k = 76 then Some ''tarantula'' else None),
      rand = (\<lambda>h w c. 1 / 2),
      randint = (\<lambda>t. (3, - 5))\<rparr>"

text \<open>
  A family of outcomes of the random generator, one for each point \<open>u\<close> of the sample
  space: every draw of \<^verbatim>\<open>np.random.rand\<close> is \<open>u\<close> when \<open>u\<close> lies in \<open>[0, 1)\<close>. The
  probability of an initial segment of \<open>[0, 1)\<close> is its length.
\<close>

definition example_draws :: "real \<Rightarrow> environment" where
  "example_draws u =
     example_environment\<lparr>rand := \<lambda>h w c. if 0 \<le> u \<and> u < 1 then u else 0\<rparr>"

definition example_probability :: "real set \<Rightarrow> real" where
  "example_probability A = Sup (A \<inter> {0..<1})"

section \<open>Properties of the jitter\<close>

lemma shape4_np_roll_axis1: "shape4 (np_roll_axis1 X s) = shape4 X"
  by (simp add: np_roll_axis1_def split: prod.splits)

lemma shape4_np_roll_axis2: "shape4 (np_roll_axis2 X s) = shape4 X"
  by (simp add: np_roll_axis2_def split: prod.splits)

lemma roll_index_less: "i < n \<Longrightarrow> roll_index n s i < n"
  by (simp add: roll_index_def nat_less_iff)

lemma roll_index_inverse:
  assumes "i < n"
  shows "roll_index n s (roll_index n (- s) i) = i"
proof -
  have pos: "0 < int n" using assms by simp
  have "(int (roll_index n (- s) i) - s) mod int n = ((int i + s) mod int n - s) mod int n"
    using pos by (simp add: roll_index_def)
  also have "\<dots> = (int i + s - s) mod int n"
    by (simp only: mod_diff_left_eq)
  also have "\<dots> = int i"
    using assms by simp
  finally show ?thesis
    by (simp add: roll_index_def [of n s])
qed

lemma at4_np_roll_axis1:
  "at4 (np_roll_axis1 X s) n h w c = at4 X n (roll_index (fst (snd (shape4 X))) s h) w c"
  by (simp add: np_roll_axis1_def split: prod.splits)

lemma at4_np_roll_axis2:
  "at4 (np_roll_axis2 X s) n h w c =
     at4 X n h (roll_index (fst (snd (snd (shape4 X)))) s w) c"
  by (simp add: np_roll_axis2_def split: prod.splits)

lemma same_array_iff:
  "same_array X Y \<longleftrightarrow>
     shape4 X = shape4 Y \<and> (\<forall>n h w c. valid4 X n h w c \<longrightarrow> at4 X n h w c = at4 Y n h w c)"
  by (auto simp: same_array_def valid4_def list_all_iff split: prod.splits)

text \<open>
  Claim C7. The jitter is exactly self-inverse: for every array \<open>X\<close> and every pair of
  offsets \<open>(ox, oy)\<close>, rolling by \<open>ox\<close> along axis 1 and \<open>oy\<close> along axis 2 and then rolling
  the result by \<open>-ox\<close> and \<open>-oy\<close> gives back an array of the same shape that holds, at
  every position, the value \<open>X\<close> holds there: no net translation remains.
\<close>

theorem jitter_self_inverse:
  "same_array (undo_jitter (jitter X ox oy) ox oy) X"
proof -
  obtain N H W C where sh: "shape4 X = (N, H, W, C)"
    by (metis prod_cases4)
  have shape: "shape4 (undo_jitter (jitter X ox oy) ox oy) = shape4 X"
    by (simp add: undo_jitter_def jitter_def shape4_np_roll_axis1 shape4_np_roll_axis2)
  have "at4 (undo_jitter (jitter X ox oy) ox oy) n h w c = at4 X n h w c"
    if "h < H" "w < W" for n h w c
    using that
    by (simp add: undo_jitter_def jitter_def at4_np_roll_axis1 at4_np_roll_axis2
        shape4_np_roll_axis1 shape4_np_roll_axis2 sh roll_index_inverse)
  then show ?thesis
    using shape by (simp add: same_array_iff valid4_def sh)
qed

theorem jitter_self_inverse_witness:
  "same_array
     (undo_jitter (jitter \<lparr>shape4 = (1, 224, 224, 3),
        at4 = \<lambda>n h w c. real h + 2 * real w + real c / 3\<rparr> 16 (- 7)) 16 (- 7))
     \<lparr>shape4 = (1, 224, 224, 3), at4 = \<lambda>n h w c. real h + 2 * real w + real c / 3\<rparr>"
  using jitter_self_inverse
    [of "\<lparr>shape4 = (1, 224, 224, 3), at4 = \<lambda>n h w c. real h + 2 * real w + real c / 3\<rparr>"
      16 "- 7"]
  by simp

section \<open>Loading the model\<close>

text \<open>
  Claim C4, as amended. The cell that loads the pretrained model has one failure branch
  of its own: it raises \<^verbatim>\<open>ValueError("You need to download SqueezeNet!")\<close> when the
  checkpoint file does not exist, and only when the file exists does it go on to
  construct the model.
\<close>

theorem load_model_guard:
  "(\<not> os_path_exists SAVE_PATH \<longrightarrow>
      load_model os_path_exists SqueezeNet =
        Inl (ValueError ''You need to download SqueezeNet!'')) \<and>
   (os_path_exists SAVE_PATH \<longrightarrow>
      load_model os_path_exists SqueezeNet = SqueezeNet SAVE_PATH)"
  by (simp add: load_model_def)

theorem load_model_guard_witness:
  "load_model (\<lambda>p. p \<noteq> SAVE_PATH) (\<lambda>p. Inr p) =
     Inl (ValueError ''You need to download SqueezeNet!'') \<and>
   load_model (\<lambda>p. p = SAVE_PATH) (\<lambda>p. Inr p) = Inr SAVE_PATH"
  using load_model_guard [of "\<lambda>p. p \<noteq> SAVE_PATH" "\<lambda>p. Inr p"]
    load_model_guard [of "\<lambda>p. p = SAVE_PATH" "\<lambda>p. Inr p"]
  by simp

text \<open>With no file on the disk the cell raises, although the constructor would succeed.\<close>

theorem load_model_raises_counterexample:
  "load_model (\<lambda>p. False) (\<lambda>p. Inr p) \<noteq> Inr SAVE_PATH \<and>
   load_model (\<lambda>p. False) (\<lambda>p. Inr p) = Inl (ValueError ''You need to download SqueezeNet!'')"
  by (simp add: load_model_def)

section \<open>Saliency maps\<close>

lemma max_list_Max:
  assumes "xs \<noteq> []"
  shows "max_list xs = Max (set xs)"
proof (cases xs)
  case Nil
  with assms show ?thesis by simp
next
  case (Cons a list)
  have "Max (set (a # list)) = fold max list a"
    by (rule Max.set_eq_fold)
  then show ?thesis
    by (simp add: max_list_def Cons)
qed

lemma max_list_channels:
  "0 < C \<Longrightarrow> max_list (map f [0..<C]) = Max (f ` {..<C})"
  by (simp add: max_list_Max atLeast0LessThan)

lemma grad_image_at:
  "at4 (tf_reduce_sum_axis0 (tf_gradients_correct_scores M X y)) n h w c =
     (\<Sum>j<fst (shape4 X). score_grad M X j (y ! j) n h w c)"
  by (simp add: tf_gradients_correct_scores_def interv_sum_list_conv_sum_set_nat
      atLeast0LessThan)

lemma grad_image_shape:
  "shape4 (tf_reduce_sum_axis0 (tf_gradients_correct_scores M X y)) = shape4 X"
  by (simp add: tf_gradients_correct_scores_def)

lemma compute_saliency_maps_value:
  assumes "shape4 X = (N, H, W, C)" and "0 < C" and "length y = N"
  shows "compute_saliency_maps M X y =
           Inr \<lparr>shape3 = (N, H, W),
                at3 = \<lambda>n h w.
                  Max ((\<lambda>c. \<bar>\<Sum>j<N. score_grad M X j (y ! j) n h w c\<bar>) ` {..<C})\<rparr>"
  using assms
  by (simp add: compute_saliency_maps_def np_max_axis3_def np_abs_def grad_image_shape
      grad_image_at max_list_channels)

text \<open>
  Claim C1. For a batch \<open>X\<close> of shape \<open>(N, H, W, 3)\<close> and a label vector \<open>y\<close> of shape
  \<open>(N,)\<close>, \<^verbatim>\<open>compute_saliency_maps\<close> returns, for each example \<open>i\<close> and pixel \<open>(h, w)\<close>, the
  maximum over the 3 channels of the absolute value of the gradient of the score
  \<^verbatim>\<open>scores[i, y[i]]\<close> with respect to that pixel. The code differentiates the sum of the
  correct-class scores of all examples; the hypothesis is that the model computes the
  scores of an example from the pixels of that example alone, so that the scores of the
  other examples have gradient zero there.
\<close>

theorem saliency_is_abs_max_of_score_gradient:
  assumes "shape4 X = (N, H, W, 3)" and "length y = N" and "i < N"
    and "\<forall>j<N. j \<noteq> i \<longrightarrow> (\<forall>h w c. score_grad M X j (y ! j) i h w c = 0)"
  shows "\<exists>S. compute_saliency_maps M X y = Inr S \<and>
             (\<forall>h w. at3 S i h w =
                Max ((\<lambda>c. \<bar>score_grad M X i (y ! i) i h w c\<bar>) ` {..<3}))"
proof -
  have "(\<Sum>j<N. score_grad M X j (y ! j) i h w c) = score_grad M X i (y ! i) i h w c"
    for h w c
  proof -
    have "(\<Sum>j<N. score_grad M X j (y ! j) i h w c) =
          (\<Sum>j\<in>{i}. score_grad M X j (y ! j) i h w c)"
      using assms(3,4) by (intro sum.mono_neutral_right) auto
    then show ?thesis by simp
  qed
  then show ?thesis
    using assms(1,2) by (simp add: compute_saliency_maps_value)
qed

theorem saliency_is_abs_max_of_score_gradient_witness:
  "\<exists>S. compute_saliency_maps example_model example_batch [1, 2, 3, 4, 5] = Inr S \<and>
       (\<forall>h w. at3 S 2 h w =
          Max ((\<lambda>c. \<bar>score_grad example_model example_batch 2 ([1, 2, 3, 4, 5] ! 2) 2 h w c\<bar>)
               ` {..<3}))"
  by (rule saliency_is_abs_max_of_score_gradient [where N = 5 and H = 224 and W = 224])
     (simp_all add: example_batch_def example_model_def)

text \<open>
  Claim C9. For a batch \<open>X\<close> of shape \<open>(N, H, W, 3)\<close> (with one label for each example),
  the array that \<^verbatim>\<open>compute_saliency_maps\<close> returns has shape \<open>(N, H, W)\<close> and every entry
  of it is nonnegative.
\<close>

theorem saliency_shape_and_sign:
  assumes "shape4 X = (N, H, W, 3)" and "length y = N"
  shows "\<exists>S. compute_saliency_maps M X y = Inr S \<and> shape3 S = (N, H, W) \<and>
             (\<forall>n h w. 0 \<le> at3 S n h w)"
proof -
  have "0 \<le> Max ((\<lambda>c. \<bar>\<Sum>j<N. score_grad M X j (y ! j) n h w c\<bar>) ` {..<3::nat})"
    for n h w
  proof -
    have "\<bar>\<Sum>j<N. score_grad M X j (y ! j) n h w 0\<bar> \<le>
          Max ((\<lambda>c. \<bar>\<Sum>j<N. score_grad M X j (y ! j) n h w c\<bar>) ` {..<3::nat})"
      by (intro Max_ge) auto
    then show ?thesis by linarith
  qed
  then show ?thesis
    using assms by (simp add: compute_saliency_maps_value)
qed

theorem saliency_shape_and_sign_witness:
  "\<exists>S. compute_saliency_maps example_model example_batch [1, 2, 3, 4, 5] = Inr S \<and>
       shape3 S = (5, 224, 224) \<and> (\<forall>n h w. 0 \<le> at3 S n h w)"
  by (rule saliency_shape_and_sign) (simp_all add: example_batch_def)

section \<open>Fooling images\<close>

declare fooling_loop.simps [simp del]

subsection \<open>The norm of the normalised gradient\<close>

lemma sum4_sum:
  "sum4 (N, H, W, C) f = (\<Sum>n<N. \<Sum>h<H. \<Sum>w<W. \<Sum>c<C. f n h w c)"
  by (simp add: sum4_def interv_sum_list_conv_sum_set_nat atLeast0LessThan)

lemma tf_norm_sum:
  "shape4 G = (N, H, W, C) \<Longrightarrow>
   tf_norm G = sqrt (\<Sum>n<N. \<Sum>h<H. \<Sum>w<W. \<Sum>c<C. (at4 G n h w c)\<^sup>2)"
  by (simp add: tf_norm_def sum4_sum)

lemma tf_norm_zero:
  assumes "tf_norm G = 0" and "valid4 G n h w c"
  shows "at4 G n h w c = 0"
proof -
  obtain N H W C where sh: "shape4 G = (N, H, W, C)"
    by (metis prod_cases4)
  have idx: "n < N" "h < H" "w < W" "c < C"
    using assms(2) by (simp_all add: valid4_def sh)
  have "(\<Sum>n<N. \<Sum>h<H. \<Sum>w<W. \<Sum>c<C. (at4 G n h w c)\<^sup>2) = 0"
    using assms(1) by (simp add: tf_norm_sum [OF sh])
  then have "(\<Sum>h<H. \<Sum>w<W. \<Sum>c<C. (at4 G n h w c)\<^sup>2) = 0"
    using idx(1) by (subst (asm) sum_nonneg_eq_0_iff) (auto intro!: sum_nonneg)
  then have "(\<Sum>w<W. \<Sum>c<C. (at4 G n h w c)\<^sup>2) = 0"
    using idx(2) by (subst (asm) sum_nonneg_eq_0_iff) (auto intro!: sum_nonneg)
  then have "(\<Sum>c<C. (at4 G n h w c)\<^sup>2) = 0"
    using idx(3) by (subst (asm) sum_nonneg_eq_0_iff) (auto intro!: sum_nonneg)
  then have "(at4 G n h w c)\<^sup>2 = 0"
    using idx(4) by (subst (asm) sum_nonneg_eq_0_iff) auto
  then show ?thesis by simp
qed

lemma tf_norm_normalized:
  assumes "tf_norm G \<noteq> 0"
  shows "tf_norm (G\<lparr>at4 := \<lambda>n h w c. at4 G n h w c / tf_norm G\<rparr>) = 1"
proof -
  obtain N H W C where sh: "shape4 G = (N, H, W, C)"
    by (metis prod_cases4)
  define S where "S = (\<Sum>n<N. \<Sum>h<H. \<Sum>w<W. \<Sum>c<C. (at4 G n h w c)\<^sup>2)"
  have k: "tf_norm G = sqrt S"
    by (simp add: tf_norm_sum [OF sh] S_def)
  have "0 \<le> S"
    unfolding S_def by (intro sum_nonneg) simp
  moreover have "S \<noteq> 0"
    using assms k by auto
  ultimately have Spos: "0 < S"
    by simp
  have "tf_norm (G\<lparr>at4 := \<lambda>n h w c. at4 G n h w c / tf_norm G\<rparr>) =
        sqrt (\<Sum>n<N. \<Sum>h<H. \<Sum>w<W. \<Sum>c<C. (at4 G n h w c)\<^sup>2 / (tf_norm G)\<^sup>2)"
    by (simp add: tf_norm_def sh sum4_sum power_divide)
  also have "(\<Sum>n<N. \<Sum>h<H. \<Sum>w<W. \<Sum>c<C. (at4 G n h w c)\<^sup>2 / (tf_norm G)\<^sup>2) =
             S / (tf_norm G)\<^sup>2"
    by (simp add: S_def sum_divide_distrib)
  also have "(tf_norm G)\<^sup>2 = S"
    using Spos by (simp add: k)
  finally show ?thesis
    using Spos by simp
qed

lemma dX_val_normalized:
  assumes "tf_norm (target_gradient M target_y X) \<noteq> 0"
  shows "\<exists>d. dX_val M target_y X = Arr d \<and> shape4 d = shape4 X \<and>
             (\<forall>n h w c. at4 d n h w c =
                learning_rate_fooling * score_grad M X 0 target_y n h w c /
                tf_norm (target_gradient M target_y X)) \<and>
             tf_norm d = 1"
proof -
  let ?G = "target_gradient M target_y X"
  let ?d = "?G\<lparr>at4 := \<lambda>n h w c. learning_rate_fooling * at4 ?G n h w c / tf_norm ?G\<rparr>"
  have "dX_val M target_y X = Arr ?d"
    using assms by (simp add: dX_val_def Let_def)
  moreover have "tf_norm ?d = 1"
    using tf_norm_normalized [OF assms] by (simp add: learning_rate_fooling_def)
  moreover have "shape4 ?d = shape4 X"
    by (simp add: target_gradient_def)
  moreover have "at4 ?d n h w c =
      learning_rate_fooling * score_grad M X 0 target_y n h w c / tf_norm ?G" for n h w c
    by (simp add: target_gradient_def)
  ultimately show ?thesis
    by blast
qed

lemma tf_norm_example: "tf_norm (target_gradient example_model 6 zero_image) \<noteq> 0"
  by (simp add: tf_norm_sum [of _ 1 224 224 3] target_gradient_def example_model_def
      zero_image_def eval_nat_numeral)

lemma tf_norm_dead: "tf_norm (target_gradient dead_model target_y zero_image) = 0"
  by (simp add: tf_norm_sum [of _ 1 224 224 3] target_gradient_def dead_model_def
      zero_image_def)

text \<open>
  Claim C2, as amended. Whenever the gradient \<open>g\<close> of the target-class score
  \<^verbatim>\<open>scores[0, target_y]\<close> at the current image is not zero, the update step of
  \<^verbatim>\<open>make_fooling_image\<close> increments the image held by \<^verbatim>\<open>X_fooling\<close> by
  \<open>learning_rate * g / ||g||\<close>, where \<open>learning_rate = 1\<close>, and this increment has L2 norm 1.
\<close>

theorem fooling_step_unit_norm:
  assumes "r < length hp" and "hp ! r = Arr X"
    and "tf_norm (target_gradient M target_y X) \<noteq> 0"
  shows "\<exists>d. snd (snd (fooling_body M target_y r (i, y, hp))) ! r = Arr (np_add X d) \<and>
             shape4 d = shape4 X \<and>
             (\<forall>n h w c. at4 d n h w c =
                learning_rate_fooling * score_grad M X 0 target_y n h w c /
                tf_norm (target_gradient M target_y X)) \<and>
             learning_rate_fooling = 1 \<and>
             tf_norm d = 1"
proof -
  obtain d where d: "dX_val M target_y X = Arr d" "shape4 d = shape4 X"
    "\<forall>n h w c. at4 d n h w c =
       learning_rate_fooling * score_grad M X 0 target_y n h w c /
       tf_norm (target_gradient M target_y X)"
    "tf_norm d = 1"
    using dX_val_normalized [OF assms(3)] by blast
  have "snd (snd (fooling_body M target_y r (i, y, hp))) ! r = Arr (np_add X d)"
    using assms(1,2) d(1) by (simp add: fooling_body_def fooling_update_def Let_def)
  then show ?thesis
    using d(2,3,4) by (intro exI [of _ d]) (simp add: learning_rate_fooling_def)
qed

theorem fooling_step_unit_norm_witness:
  "\<exists>d. snd (snd (fooling_body example_model 6 1 (0, 3, [Arr zero_image, Arr zero_image]))) ! 1 =
          Arr (np_add zero_image d) \<and>
       tf_norm d = 1"
proof -
  have "\<exists>d. snd (snd (fooling_body example_model 6 1
                 (0, 3, [Arr zero_image, Arr zero_image]))) ! 1 = Arr (np_add zero_image d) \<and>
             shape4 d = shape4 zero_image \<and>
             (\<forall>n h w c. at4 d n h w c =
                learning_rate_fooling * score_grad example_model zero_image 0 6 n h w c /
                tf_norm (target_gradient example_model 6 zero_image)) \<and>
             learning_rate_fooling = 1 \<and>
             tf_norm d = 1"
    by (rule fooling_step_unit_norm) (simp_all add: tf_norm_example)
  then show ?thesis
    by blast
qed

text \<open>
  For a target class whose score has gradient zero at the image, the norm is zero, the
  quotient is \<open>0 / 0\<close>, and the update step leaves an array of NaN in \<^verbatim>\<open>X_fooling\<close>: the
  increment that was applied has no L2 norm 1.
\<close>

theorem fooling_step_zero_gradient_counterexample:
  "tf_norm (target_gradient dead_model 6 zero_image) = 0 \<and>
   dX_val dead_model 6 zero_image = NaNs \<and>
   snd (snd (fooling_body dead_model 6 1 (0, 0, [Arr zero_image, Arr zero_image]))) ! 1 = NaNs"
  by (simp add: tf_norm_dead fooling_body_def fooling_update_def dX_val_def Let_def)

subsection \<open>The loop\<close>

lemma fooling_body_fst: "fst (fooling_body M ty r (i, y, hp)) = Suc i"
  by (simp add: fooling_body_def Let_def)

lemma fooling_loop_run:
  "\<exists>k. i + k \<le> max i n_iterations \<and>
       fooling_loop M ty r (i, y, hp) = (fooling_body M ty r ^^ k) (i, y, hp) \<and>
       fst (fooling_loop M ty r (i, y, hp)) = i + k \<and>
       (\<forall>j<k. fst (snd ((fooling_body M ty r ^^ j) (i, y, hp))) \<noteq> ty) \<and>
       (i + k < n_iterations \<longrightarrow> fst (snd (fooling_loop M ty r (i, y, hp))) = ty)"
proof (induction M ty r "(i, y, hp)" arbitrary: i y hp rule: fooling_loop.induct)
  case (1 M ty r i y hp)
  show ?case
  proof (cases "i < n_iterations \<and> y \<noteq> ty")
    case False
    then have "fooling_loop M ty r (i, y, hp) = (i, y, hp)"
      by (subst fooling_loop.simps) (simp only: False if_False)
    with False show ?thesis
      by (intro exI [of _ 0]) auto
  next
    case True
    obtain i' y' hp' where b: "fooling_body M ty r (i, y, hp) = (i', y', hp')"
      by (metis prod_cases3)
    have i': "i' = Suc i"
      using fooling_body_fst [of M ty r i y hp] b by simp
    have unfold: "fooling_loop M ty r (i, y, hp) = fooling_loop M ty r (i', y', hp')"
      using True b by (simp add: fooling_loop.simps [of M ty r i y hp])
    from "1.hyps" [OF True b] obtain k where
      k: "i' + k \<le> max i' n_iterations"
         "fooling_loop M ty r (i', y', hp') = (fooling_body M ty r ^^ k) (i', y', hp')"
         "fst (fooling_loop M ty r (i', y', hp')) = i' + k"
         "\<forall>j<k. fst (snd ((fooling_body M ty r ^^ j) (i', y', hp'))) \<noteq> ty"
         "i' + k < n_iterations \<longrightarrow> fst (snd (fooling_loop M ty r (i', y', hp'))) = ty"
      by blast
    have pow: "(fooling_body M ty r ^^ j) (i', y', hp') =
               (fooling_body M ty r ^^ Suc j) (i, y, hp)" for j
      by (simp add: funpow_swap1 b)
    have "\<forall>j<Suc k. fst (snd ((fooling_body M ty r ^^ j) (i, y, hp))) \<noteq> ty"
    proof (intro allI impI)
      fix j assume "j < Suc k"
      show "fst (snd ((fooling_body M ty r ^^ j) (i, y, hp))) \<noteq> ty"
      proof (cases j)
        case 0
        then show ?thesis using True by simp
      next
        case (Suc j')
        then have "j' < k" using \<open>j < Suc k\<close> by simp
        then show ?thesis using k(4) pow [of j'] Suc by metis
      qed
    qed
    moreover have "i + Suc k \<le> max i n_iterations"
      using k(1) i' True by simp
    ultimately show ?thesis
      using k unfold pow [of k] i'
      by (intro exI [of _ "Suc k"]) (simp del: funpow.simps)
  qed
qed

lemma make_fooling_image_eq:
  "make_fooling_image M hp X ty =
     (length hp,
      snd (snd (fooling_loop M ty (length hp) (0, argmax_scores M (hp ! X), hp @ [hp ! X]))))"
  by (simp add: make_fooling_image_def np_copy_def Let_def split: prod.splits)

text \<open>
  Claim C3. The loop of \<^verbatim>\<open>make_fooling_image\<close> always terminates (the model of the loop
  is a total function, by its termination proof), and the call returns after some number
  \<open>k \<le> 100\<close> of update steps: the result is the state after exactly \<open>k\<close> runs of the loop
  body, the prediction differs from \<open>target_y\<close> before each of these runs, and when
  \<open>k < 100\<close> the prediction on the final image is \<open>target_y\<close>.
\<close>

theorem make_fooling_image_at_most_100_steps:
  "let r = length hp;
       s0 = (0, argmax_scores M (hp ! X), hp @ [hp ! X])
   in \<exists>k\<le>100.
        make_fooling_image M hp X target_y =
          (r, snd (snd ((fooling_body M target_y r ^^ k) s0))) \<and>
        fooling_loop M target_y r s0 = (fooling_body M target_y r ^^ k) s0 \<and>
        fst (fooling_loop M target_y r s0) = k \<and>
        (\<forall>j<k. fst (snd ((fooling_body M target_y r ^^ j) s0)) \<noteq> target_y) \<and>
        (k < 100 \<longrightarrow> fst (snd (fooling_loop M target_y r s0)) = target_y)"
  using fooling_loop_run [where i = 0 and M = M and ty = target_y and r = "length hp"
      and y = "argmax_scores M (hp ! X)" and hp = "hp @ [hp ! X]"]
  by (simp add: n_iterations_def Let_def make_fooling_image_eq)

lemma example_first_step:
  "fst (snd (fooling_body example_model 6 1 (0, 3, [Arr zero_image, Arr zero_image]))) = 6"
  using tf_norm_example
  by (simp add: fooling_body_def fooling_update_def dX_val_def Let_def np_add_def
      example_model_def target_gradient_def zero_image_def learning_rate_fooling_def)

theorem make_fooling_image_at_most_100_steps_witness:
  "make_fooling_image example_model [Arr zero_image] 0 6 =
     (1, snd (snd (fooling_body example_model 6 1 (0, 3, [Arr zero_image, Arr zero_image])))) \<and>
   fst (fooling_loop example_model 6 1 (0, 3, [Arr zero_image, Arr zero_image])) = 1"
proof -
  let ?s0 = "(0::nat, 3::int, [Arr zero_image, Arr zero_image])"
  let ?body = "fooling_body example_model 6 1"
  have start: "argmax_scores example_model (Arr zero_image) = 3"
    by (simp add: example_model_def zero_image_def)
  have "\<exists>k\<le>100.
          make_fooling_image example_model [Arr zero_image] 0 6 =
            (1, snd (snd ((?body ^^ k) ?s0))) \<and>
          fooling_loop example_model 6 1 ?s0 = (?body ^^ k) ?s0 \<and>
          fst (fooling_loop example_model 6 1 ?s0) = k \<and>
          (\<forall>j<k. fst (snd ((?body ^^ j) ?s0)) \<noteq> 6) \<and>
          (k < 100 \<longrightarrow> fst (snd (fooling_loop example_model 6 1 ?s0)) = 6)"
    using make_fooling_image_at_most_100_steps
      [of "[Arr zero_image]" example_model 0 6]
    by (simp add: Let_def start)
  then obtain k where k: "k \<le> 100"
    "make_fooling_image example_model [Arr zero_image] 0 6 = (1, snd (snd ((?body ^^ k) ?s0)))"
    "fst (fooling_loop example_model 6 1 ?s0) = k"
    "fooling_loop example_model 6 1 ?s0 = (?body ^^ k) ?s0"
    "\<forall>j<k. fst (snd ((?body ^^ j) ?s0)) \<noteq> 6"
    "k < 100 \<longrightarrow> fst (snd (fooling_loop example_model 6 1 ?s0)) = 6"
    by blast
  have "k \<noteq> 0"
    using k(4,6) by (cases "k = 0") simp_all
  moreover have "\<not> 1 < k"
    using k(5) example_first_step by auto
  ultimately have "k = 1"
    by simp
  then show ?thesis
    using k(2,3) by simp
qed

subsection \<open>The caller's array\<close>

lemma fooling_body_heap:
  "length (snd (snd (fooling_body M ty r s))) = length (snd (snd s)) \<and>
   (\<forall>a. a \<noteq> r \<longrightarrow> snd (snd (fooling_body M ty r s)) ! a = snd (snd s) ! a)"
  by (cases s) (simp add: fooling_body_def Let_def)

lemma fooling_funpow_heap:
  "length (snd (snd ((fooling_body M ty r ^^ k) s))) = length (snd (snd s)) \<and>
   (\<forall>a. a \<noteq> r \<longrightarrow> snd (snd ((fooling_body M ty r ^^ k) s)) ! a = snd (snd s) ! a)"
proof (induction k)
  case 0
  show ?case by simp
next
  case (Suc k)
  show ?case
    using Suc fooling_body_heap [where M = M and ty = ty and r = r
        and s = "(fooling_body M ty r ^^ k) s"]
    by simp
qed

lemma fooling_loop_heap:
  "length (snd (snd (fooling_loop M ty r (i, y, hp)))) = length hp \<and>
   (\<forall>a. a \<noteq> r \<longrightarrow> snd (snd (fooling_loop M ty r (i, y, hp))) ! a = hp ! a)"
proof -
  obtain k where "fooling_loop M ty r (i, y, hp) = (fooling_body M ty r ^^ k) (i, y, hp)"
    using fooling_loop_run [where i = i and M = M and ty = ty and r = r and y = y and hp = hp]
    by blast
  then show ?thesis
    using fooling_funpow_heap [where M = M and ty = ty and r = r and k = k and s = "(i, y, hp)"]
    by simp
qed

text \<open>
  Claim C8. \<^verbatim>\<open>make_fooling_image\<close> never modifies its input array: the updates go to the
  copy that \<^verbatim>\<open>X.copy()\<close> allocates, so the array that the caller's reference \<open>X\<close> points
  to, and every other array that existed before the call, holds its original values when
  the call returns; the reference returned is not \<open>X\<close>.
\<close>

theorem make_fooling_image_preserves_input:
  assumes "X < length hp"
  shows "fst (make_fooling_image M hp X target_y) \<noteq> X \<and>
         snd (make_fooling_image M hp X target_y) ! X = hp ! X \<and>
         take (length hp) (snd (make_fooling_image M hp X target_y)) = hp"
proof -
  let ?hp1 = "hp @ [hp ! X]"
  let ?res = "fooling_loop M target_y (length hp) (0, argmax_scores M (hp ! X), ?hp1)"
  have len: "length (snd (snd ?res)) = Suc (length hp)"
    and same: "\<And>a. a \<noteq> length hp \<Longrightarrow> snd (snd ?res) ! a = ?hp1 ! a"
    using fooling_loop_heap [of M target_y "length hp" 0 "argmax_scores M (hp ! X)" ?hp1]
    by simp_all
  have old: "snd (snd ?res) ! a = hp ! a" if "a < length hp" for a
    using same [of a] that by (simp add: nth_append)
  have "take (length hp) (snd (snd ?res)) = take (length hp) hp"
    by (rule nth_take_lemma) (simp_all add: len old)
  then show ?thesis
    using assms old [of X] by (simp add: make_fooling_image_eq)
qed

theorem make_fooling_image_preserves_input_witness:
  "fst (make_fooling_image example_model [Arr zero_image] 0 6) \<noteq> 0 \<and>
   snd (make_fooling_image example_model [Arr zero_image] 0 6) ! 0 = Arr zero_image \<and>
   take 1 (snd (make_fooling_image example_model [Arr zero_image] 0 6)) = [Arr zero_image]"
  using make_fooling_image_preserves_input [of 0 "[Arr zero_image]" example_model 6]
  by simp

section \<open>Class visualisation\<close>

subsection \<open>Shapes and the iterations that succeed\<close>

lemma shape4_simps [simp]:
  "shape4 (np_add X Y) = shape4 X"
  "shape4 (np_scale a X) = shape4 X"
  "shape4 (np_clip X lo hi) = shape4 X"
  "shape4 (jitter X ox oy) = shape4 X"
  "shape4 (undo_jitter X ox oy) = shape4 X"
  "shape4 (gaussian_filter1d_axis1 X s) = shape4 X"
  "shape4 (gaussian_filter1d_axis2 X s) = shape4 X"
  "shape4 (blur_image X s) = shape4 X"
  by (simp_all add: np_add_def np_scale_def np_clip_def jitter_def undo_jitter_def
      shape4_np_roll_axis1 shape4_np_roll_axis2 gaussian_filter1d_axis1_def
      gaussian_filter1d_axis2_def blur_image_def split: prod.splits)

lemma shape4_ascent_step [simp]: "shape4 (ascent_step M kw ty X offs) = shape4 X"
  by (simp add: ascent_step_def Let_def split: prod.splits)

lemma shape4_clip_then_blur [simp]: "shape4 (clip_then_blur E kw t X) = shape4 X"
  by (simp add: clip_then_blur_def Let_def)

lemma gradient_step_eq:
  "gradient_step M kw ty X offs =
     (if shape4 X \<noteq> (1, 224, 224, 3) then Inl AssertionError
      else Inr (ascent_step M kw ty X offs))"
  by (simp add: gradient_step_def sess_run_grad_def ascent_step_def Let_def split: prod.splits)

lemma ccv_iteration_Inr:
  assumes "ccv_iteration M E kw ty t X = Inr X'"
  shows "shape4 X = (1, 224, 224, 3)" and "blur_every kw \<noteq> 0"
    and "X' = clip_then_blur E kw t (ascent_step M kw ty X (randint E t))"
  using assms
  by (auto simp: ccv_iteration_def gradient_step_eq clip_then_blur_def Let_def
      split: if_splits option.splits)

lemma show_image_None:
  assumes "class_names E ty \<noteq> None" and "show_every kw \<noteq> 0"
  shows "show_image E kw ty t = None"
  using assms by (auto simp: show_image_def Let_def)

lemma ccv_loop_returns:
  assumes "shape4 X = (1, 224, 224, 3)" and "0 \<le> max_jitter kw" and "blur_every kw \<noteq> 0"
    and "class_names E ty \<noteq> None" and "show_every kw \<noteq> 0"
  shows "\<exists>X'. ccv_loop M E kw ty t k X = Inr X'"
  using assms(1)
proof (induction k arbitrary: t X)
  case 0
  show ?case by simp
next
  case (Suc k)
  have "ccv_iteration M E kw ty t X =
          Inr (clip_then_blur E kw t (ascent_step M kw ty X (randint E t)))"
    using Suc.prems assms(2-5)
    by (simp add: ccv_iteration_def gradient_step_eq clip_then_blur_def Let_def show_image_None)
  moreover have "\<exists>X'. ccv_loop M E kw ty (Suc t) k
        (clip_then_blur E kw t (ascent_step M kw ty X (randint E t))) = Inr X'"
    using Suc.prems by (intro Suc.IH) simp
  ultimately show ?case by simp
qed

lemma example_returns:
  "\<exists>X. create_class_visualization example_model example_environment default_kwargs 76 = Inr X"
  unfolding create_class_visualization_def
  by (rule ccv_loop_returns)
     (simp_all add: initial_image_def expand_dims_def example_environment_def noise_def
       np_scale3_def np_random_rand_def default_kwargs_def)

subsection \<open>What an iteration does to the image\<close>

lemma filter_weights_half: "filter_weights (1 / 2) = sigma_half_weights"
proof -
  have r: "nat \<lfloor>4 * (1 / 2) + 1 / 2 :: real\<rfloor> = 2"
    by simp
  have u: "[- int 2..int 2] = [- 2, - 1, 0, 1, 2]"
    by (simp add: upto.simps)
  show ?thesis
    unfolding filter_weights_def r gaussian_kernel1d_def u
    by (simp add: sigma_half_weights_def Let_def)
qed

lemma reflect_index_near:
  assumes "- int n \<le> i" and "i < 2 * int n"
  shows "reflect_index n i = reflected n i"
proof (cases "i < 0")
  case True
  have "i mod (2 * int n) = (i + 2 * int n) mod (2 * int n)"
    by simp
  also have "\<dots> = i + 2 * int n"
    using True assms by (intro mod_pos_pos_trivial) simp_all
  finally show ?thesis
    using True assms by (simp add: reflect_index_def reflected_def Let_def)
next
  case False
  then have "i mod (2 * int n) = i"
    using assms by (intro mod_pos_pos_trivial) simp_all
  then show ?thesis
    using False by (simp add: reflect_index_def reflected_def Let_def)
qed

lemma correlate1d_half:
  assumes "i < 224"
  shows "correlate1d (filter_weights (1 / 2)) 224 line i =
           (\<Sum>a<5. sigma_half_weights ! a * line (reflected 224 (int i + int a - 2)))"
proof -
  have len: "length sigma_half_weights = 5"
    by (simp add: sigma_half_weights_def Let_def)
  have "reflect_index 224 (int i + int a - 2) = reflected 224 (int i + int a - 2)" if "a < 5" for a
    using assms that by (intro reflect_index_near) simp_all
  then show ?thesis
    by (simp add: correlate1d_def filter_weights_half len interv_sum_list_conv_sum_set_nat
        atLeast0LessThan)
qed

lemma at4_blur_image_half:
  assumes "shape4 Z = (N, 224, 224, C)" and "h < 224" and "w < 224"
  shows "at4 (blur_image Z (1 / 2)) n h w c =
           (\<Sum>b<5. sigma_half_weights ! b *
              (\<Sum>a<5. sigma_half_weights ! a *
                 at4 Z n (reflected 224 (int h + int a - 2)) (reflected 224 (int w + int b - 2)) c))"
proof -
  have r: "reflected 224 (int w + int b - 2) < 224" if "b < 5" for b
    using assms(3) that by (auto simp: reflected_def)
  show ?thesis
    using assms(2,3)
    by (simp add: blur_image_def gaussian_filter1d_axis2_def gaussian_filter1d_axis1_def assms(1)
        correlate1d_half)
qed


lemma ccv_loop_Suc_end:
  "ccv_loop M E kw ty t0 (Suc k) X0 =
     (case ccv_loop M E kw ty t0 k X0 of
        Inl e \<Rightarrow> Inl e
      | Inr Xk \<Rightarrow> ccv_iteration M E kw ty (t0 + k) Xk)"
proof (induction k arbitrary: t0 X0)
  case 0
  show ?case by (simp split: sum.splits)
next
  case (Suc k)
  show ?case
  proof (cases "ccv_iteration M E kw ty t0 X0")
    case (Inl e)
    then show ?thesis by simp
  next
    case (Inr X1)
    have a: "ccv_loop M E kw ty t0 (Suc (Suc k)) X0 = ccv_loop M E kw ty (Suc t0) (Suc k) X1"
      by (simp only: ccv_loop.simps Inr sum.case)
    have b: "ccv_loop M E kw ty t0 (Suc k) X0 = ccv_loop M E kw ty (Suc t0) k X1"
      by (simp only: ccv_loop.simps Inr sum.case)
    show ?thesis
      unfolding a b by (simp add: Suc.IH del: ccv_loop.simps split: sum.splits)
  qed
qed

lemma ccv_loop_prefix:
  assumes "ccv_loop M E kw ty t0 k X0 = Inr X" and "j \<le> k"
  shows "\<exists>Xj. ccv_loop M E kw ty t0 j X0 = Inr Xj"
  using assms
proof (induction k arbitrary: X)
  case 0
  then show ?case by simp
next
  case (Suc k)
  show ?case
  proof (cases "j = Suc k")
    case True
    then show ?thesis using Suc.prems(1) by blast
  next
    case False
    then have "j \<le> k" using Suc.prems(2) by simp
    moreover obtain Xk where "ccv_loop M E kw ty t0 k X0 = Inr Xk"
      using Suc.prems(1) by (auto simp: ccv_loop_Suc_end simp del: ccv_loop.simps split: sum.splits)
    ultimately show ?thesis
      using Suc.IH by blast
  qed
qed

lemma ccv_iteration_cases:
  assumes "ccv_iteration M E kw ty t X = Inr X'"
  shows "\<exists>Y. gradient_step M kw ty X (randint E t) = Inr Y \<and> shape4 Y = (1, 224, 224, 3) \<and>
             blur_every kw \<noteq> 0 \<and>
             X' = (if int t mod blur_every kw = 0
                   then blur_image (np_clip Y (clip_lo E) (clip_hi E)) (1 / 2)
                   else np_clip Y (clip_lo E) (clip_hi E))"
  using assms
  by (auto simp: ccv_iteration_def gradient_step_eq Let_def split: if_splits option.splits)

lemma at4_np_clip:
  "at4 (np_clip Y (clip_lo E) (clip_hi E)) n h w c = clipped_entry E Y n h w c"
  by (simp add: np_clip_def clip_lo_def clip_hi_def clipped_entry_def)

text \<open>
  Claim C5. In every iteration \<open>t\<close> of a run of \<^verbatim>\<open>create_class_visualization\<close> that
  returns, the image is clipped elementwise to the interval
  \<open>[-MEAN / STD, (1 - MEAN) / STD]\<close> of its channel: with \<open>Y\<close> the image after the gradient
  step, the image after the iteration holds at every position the clipped entry of \<open>Y\<close>
  when \<open>t mod blur_every \<noteq> 0\<close> (no blur), and when \<open>t mod blur_every = 0\<close> it holds the
  Gaussian blur with \<open>sigma = 0.5\<close> of the clipped entries: along both image axes, the sum
  of the five neighbours, reflected at the border, with the weights of the kernel. The
  image after the last iteration is the one returned.
\<close>

theorem class_visualization_clips_and_blurs:
  assumes "create_class_visualization M E kw target_y = Inr X"
    and "int t < num_iterations kw"
  shows "\<exists>Xt Y Xt'.
           ccv_loop M E kw target_y 0 t (initial_image E) = Inr Xt \<and>
           gradient_step M kw target_y Xt (randint E t) = Inr Y \<and>
           ccv_loop M E kw target_y 0 (Suc t) (initial_image E) = Inr Xt' \<and>
           (int (Suc t) = num_iterations kw \<longrightarrow> Xt' = X) \<and>
           shape4 Xt' = (1, 224, 224, 3) \<and>
           blur_every kw \<noteq> 0 \<and>
           (int t mod blur_every kw \<noteq> 0 \<longrightarrow>
              (\<forall>n h w c. at4 Xt' n h w c = clipped_entry E Y n h w c)) \<and>
           (int t mod blur_every kw = 0 \<longrightarrow>
              (\<forall>n c. \<forall>h<224. \<forall>w<224.
                 at4 Xt' n h w c =
                   (\<Sum>b<5. sigma_half_weights ! b *
                      (\<Sum>a<5. sigma_half_weights ! a *
                         clipped_entry E Y n (reflected 224 (int h + int a - 2))
                           (reflected 224 (int w + int b - 2)) c))))"
proof -
  let ?k = "nat (num_iterations kw)"
  have run: "ccv_loop M E kw target_y 0 ?k (initial_image E) = Inr X"
    using assms(1) by (simp only: create_class_visualization_def)
  have le: "Suc t \<le> ?k"
    using assms(2) by simp
  obtain Xt' where Xt': "ccv_loop M E kw target_y 0 (Suc t) (initial_image E) = Inr Xt'"
    using ccv_loop_prefix [OF run le] by blast
  obtain Xt where Xt: "ccv_loop M E kw target_y 0 t (initial_image E) = Inr Xt"
    and it: "ccv_iteration M E kw target_y t Xt = Inr Xt'"
    using Xt' by (auto simp: ccv_loop_Suc_end simp del: ccv_loop.simps split: sum.splits)
  obtain Y where Y: "gradient_step M kw target_y Xt (randint E t) = Inr Y"
    and shY: "shape4 Y = (1, 224, 224, 3)" and be: "blur_every kw \<noteq> 0"
    and eq: "Xt' = (if int t mod blur_every kw = 0
                   then blur_image (np_clip Y (clip_lo E) (clip_hi E)) (1 / 2)
                   else np_clip Y (clip_lo E) (clip_hi E))"
    using ccv_iteration_cases [OF it] by blast
  have last: "int (Suc t) = num_iterations kw \<longrightarrow> Xt' = X"
  proof
    assume "int (Suc t) = num_iterations kw"
    then have "?k = Suc t" by simp
    then show "Xt' = X" using run Xt' by simp
  qed
  have shape: "shape4 Xt' = (1, 224, 224, 3)"
    by (simp add: eq shY)
  have plain: "int t mod blur_every kw \<noteq> 0 \<longrightarrow>
      (\<forall>n h w c. at4 Xt' n h w c = clipped_entry E Y n h w c)"
    by (simp add: eq at4_np_clip)
  have shZ: "shape4 (np_clip Y (clip_lo E) (clip_hi E)) = (1, 224, 224, 3)"
    by (simp add: shY)
  have blurred: "int t mod blur_every kw = 0 \<longrightarrow>
      (\<forall>n c. \<forall>h<224. \<forall>w<224.
         at4 Xt' n h w c =
           (\<Sum>b<5. sigma_half_weights ! b *
              (\<Sum>a<5. sigma_half_weights ! a *
                 clipped_entry E Y n (reflected 224 (int h + int a - 2))
                   (reflected 224 (int w + int b - 2)) c)))"
    by (simp add: eq at4_blur_image_half [OF shZ] at4_np_clip)
  show ?thesis
    by (rule exI [of _ Xt], rule exI [of _ Y], rule exI [of _ Xt'])
       (intro conjI Xt Y Xt' last shape be plain blurred)
qed


theorem class_visualization_clips_and_blurs_witness:
  "(\<exists>Y X1.
      gradient_step example_model default_kwargs 76 (initial_image example_environment)
        (randint example_environment 0) = Inr Y \<and>
      ccv_loop example_model example_environment default_kwargs 76 0 1
        (initial_image example_environment) = Inr X1 \<and>
      (\<forall>n c. \<forall>h<224. \<forall>w<224.
         at4 X1 n h w c =
           (\<Sum>b<5. sigma_half_weights ! b *
              (\<Sum>a<5. sigma_half_weights ! a *
                 clipped_entry example_environment Y n (reflected 224 (int h + int a - 2))
                   (reflected 224 (int w + int b - 2)) c)))) \<and>
   (\<exists>X3 Y X4.
      ccv_loop example_model example_environment default_kwargs 76 0 3
        (initial_image example_environment) = Inr X3 \<and>
      gradient_step example_model default_kwargs 76 X3 (randint example_environment 3) = Inr Y \<and>
      ccv_loop example_model example_environment default_kwargs 76 0 4
        (initial_image example_environment) = Inr X4 \<and>
      (\<forall>n h w c. at4 X4 n h w c = clipped_entry example_environment Y n h w c))"
proof -
  obtain X where X: "create_class_visualization example_model example_environment
      default_kwargs 76 = Inr X"
    using example_returns by blast
  have t0: "int 0 < num_iterations default_kwargs" and t3: "int 3 < num_iterations default_kwargs"
    by (simp_all add: default_kwargs_def)
  have m0: "int 0 mod blur_every default_kwargs = 0"
    and m3: "int 3 mod blur_every default_kwargs \<noteq> 0"
    by (simp_all add: default_kwargs_def)
  have first: "\<exists>Y X1.
      gradient_step example_model default_kwargs 76 (initial_image example_environment)
        (randint example_environment 0) = Inr Y \<and>
      ccv_loop example_model example_environment default_kwargs 76 0 1
        (initial_image example_environment) = Inr X1 \<and>
      (\<forall>n c. \<forall>h<224. \<forall>w<224.
         at4 X1 n h w c =
           (\<Sum>b<5. sigma_half_weights ! b *
              (\<Sum>a<5. sigma_half_weights ! a *
                 clipped_entry example_environment Y n (reflected 224 (int h + int a - 2))
                   (reflected 224 (int w + int b - 2)) c)))"
    using class_visualization_clips_and_blurs [OF X t0] m0 by (elim exE conjE) (intro exI conjI, simp_all)
  have fourth: "\<exists>X3 Y X4.
      ccv_loop example_model example_environment default_kwargs 76 0 3
        (initial_image example_environment) = Inr X3 \<and>
      gradient_step example_model default_kwargs 76 X3 (randint example_environment 3) = Inr Y \<and>
      ccv_loop example_model example_environment default_kwargs 76 0 4
        (initial_image example_environment) = Inr X4 \<and>
      (\<forall>n h w c. at4 X4 n h w c = clipped_entry example_environment Y n h w c)"
    using class_visualization_clips_and_blurs [OF X t3] m3 by (elim exE conjE) (intro exI conjI, simp_all add: eval_nat_numeral)
  from first fourth show ?thesis by (rule conjI)
qed

subsection \<open>The initial image\<close>

text \<open>
  Claim C6. \<^verbatim>\<open>create_class_visualization\<close> starts from random noise. The draws of
  \<^verbatim>\<open>np.random.rand\<close> depend on a sample point \<open>s\<close>; by the generator's contract each draw
  lies in \<open>[0, 1)\<close> and is uniformly distributed there, whatever the probability \<open>P\<close> on
  the sample space is. Then the raw array is \<open>255\<close> times the draws, of shape
  \<open>(224, 224, 3)\<close>, with values in \<open>[0, 255)\<close>, each uniformly distributed on that
  interval; the loop starts from this array passed through \<^verbatim>\<open>preprocess_image\<close>, with a
  leading axis of size 1, for every model and every \<open>target_y\<close>, and that image is what
  is returned when there is no iteration.
\<close>

theorem class_visualization_starts_from_noise:
  fixes P :: "'s set \<Rightarrow> real" and Env :: "'s \<Rightarrow> environment"
  assumes "\<forall>s h w c. 0 \<le> rand (Env s) h w c \<and> rand (Env s) h w c < 1"
    and "\<forall>h w c u. 0 \<le> u \<and> u \<le> 1 \<longrightarrow> P {s. rand (Env s) h w c \<le> u} = u"
  shows "(\<forall>s.
            let raw = \<lparr>shape3 = (224, 224, 3), at3 = \<lambda>h w c. 255 * rand (Env s) h w c\<rparr>;
                pre = preprocess_image (Env s) raw;
                X0 = \<lparr>shape4 = (1, fst (shape3 pre), fst (snd (shape3 pre)), snd (snd (shape3 pre))),
                      at4 = \<lambda>n. at3 pre\<rparr>
            in noise (Env s) = raw \<and>
               (\<forall>h w c. 0 \<le> at3 raw h w c \<and> at3 raw h w c < 255) \<and>
               (\<forall>M kw target_y.
                  create_class_visualization M (Env s) kw target_y =
                    ccv_loop M (Env s) kw target_y 0 (nat (num_iterations kw)) X0) \<and>
               (\<forall>M M' kw target_y target_y'.
                  num_iterations kw \<le> 0 \<longrightarrow>
                    create_class_visualization M (Env s) kw target_y = Inr X0 \<and>
                    create_class_visualization M' (Env s) kw target_y' = Inr X0)) \<and>
         (\<forall>h w c x. 0 \<le> x \<and> x \<le> 255 \<longrightarrow> P {s. at3 (noise (Env s)) h w c \<le> x} = x / 255)"
proof -
  have noise: "noise E = \<lparr>shape3 = (224, 224, 3), at3 = \<lambda>h w c. 255 * rand E h w c\<rparr>" for E
    by (simp add: noise_def np_scale3_def np_random_rand_def)
  have start: "initial_image E =
      (let pre = preprocess_image E \<lparr>shape3 = (224, 224, 3), at3 = \<lambda>h w c. 255 * rand E h w c\<rparr>
       in \<lparr>shape4 = (1, fst (shape3 pre), fst (snd (shape3 pre)), snd (snd (shape3 pre))),
           at4 = \<lambda>n. at3 pre\<rparr>)" for E
    by (simp add: initial_image_def expand_dims_def noise Let_def split: prod.splits)
  have bounds: "0 \<le> 255 * rand (Env s) h w c \<and> 255 * rand (Env s) h w c < 255" for s h w c
    using assms(1) by simp
  have distribution:
"P {s. at3 (noise (Env s)) h w c \<le> x} = x / 255" if "0 \<le> x" "x \<le> 255" for h w c x
  proof -
    have eq: "{s. at3 (noise (Env s)) h w c \<le> x} = {s. rand (Env s) h w c \<le> x / 255}"
      by (auto simp: noise)
    have b: "0 \<le> x / 255 \<and> x / 255 \<le> 1"
      using that by simp
    have "P {s. rand (Env s) h w c \<le> x / 255} = x / 255"
      using assms(2) b by blast
    then show ?thesis
      by (simp only: eq)
  qed
  show ?thesis
  proof (intro conjI allI impI)
    fix s
    show "let raw = \<lparr>shape3 = (224, 224, 3), at3 = \<lambda>h w c. 255 * rand (Env s) h w c\<rparr>;
              pre = preprocess_image (Env s) raw;
              X0 = \<lparr>shape4 = (1, fst (shape3 pre), fst (snd (shape3 pre)), snd (snd (shape3 pre))),
                    at4 = \<lambda>n. at3 pre\<rparr>
          in noise (Env s) = raw \<and>
             (\<forall>h w c. 0 \<le> at3 raw h w c \<and> at3 raw h w c < 255) \<and>
             (\<forall>M kw target_y.
                create_class_visualization M (Env s) kw target_y =
                  ccv_loop M (Env s) kw target_y 0 (nat (num_iterations kw)) X0) \<and>
             (\<forall>M M' kw target_y target_y'.
                num_iterations kw \<le> 0 \<longrightarrow>
                  create_class_visualization M (Env s) kw target_y = Inr X0 \<and>
                  create_class_visualization M' (Env s) kw target_y' = Inr X0)"
      using bounds [of s]
      by (simp add: Let_def noise start create_class_visualization_def)
  next
    fix h w c :: nat and x :: real
    assume "0 \<le> x \<and> x \<le> 255"
    then show "P {s. at3 (noise (Env s)) h w c \<le> x} = x / 255"
      using distribution by blast
  qed
qed

lemma example_draws_uniform:
  assumes "0 \<le> u" and "u \<le> 1"
  shows "example_probability {s. rand (example_draws s) h w c \<le> u} = u"
proof (cases "u = 1")
  case True
  have "{s. rand (example_draws s) h w c \<le> u} \<inter> {0..<1} = {0..<1}"
    using True by (auto simp: example_draws_def)
  then show ?thesis
    using True by (simp add: example_probability_def)
next
  case False
  have "{s. rand (example_draws s) h w c \<le> u} \<inter> {0..<1} = {0..u}"
    using False assms by (auto simp: example_draws_def)
  then show ?thesis
    using assms by (simp add: example_probability_def)
qed

theorem class_visualization_starts_from_noise_witness:
  "example_probability {s. at3 (noise (example_draws s)) 0 0 0 \<le> 51} = 1 / 5 \<and>
   at3 (noise (example_draws (1 / 2))) 0 0 0 = 255 / 2 \<and>
   create_class_visualization example_model (example_draws (1 / 2))
     (default_kwargs\<lparr>num_iterations := 0\<rparr>) 76 =
   create_class_visualization example_model (example_draws (1 / 2))
     (default_kwargs\<lparr>num_iterations := 0\<rparr>) 6"
proof -
  have r: "\<forall>s h w c. 0 \<le> rand (example_draws s) h w c \<and> rand (example_draws s) h w c < 1"
    by (simp add: example_draws_def)
  have u: "\<forall>h w c u. 0 \<le> u \<and> u \<le> 1 \<longrightarrow>
      example_probability {s. rand (example_draws s) h w c \<le> u} = u"
    using example_draws_uniform by blast
  note inst = class_visualization_starts_from_noise [of example_draws example_probability, OF r u]
  note per_draw = conjunct1 [OF inst, rule_format, where s = "1 / 2"]
  have "example_probability {s. at3 (noise (example_draws s)) 0 0 0 \<le> 51} = 51 / 255"
    using conjunct2 [OF inst, rule_format, where x = 51 and h = 0 and w = 0 and c = 0]
    by simp
  moreover have "noise (example_draws (1 / 2)) =
      \<lparr>shape3 = (224, 224, 3), at3 = \<lambda>h w c. 255 * rand (example_draws (1 / 2)) h w c\<rparr>"
    using per_draw by (simp add: Let_def)
  moreover have "create_class_visualization example_model (example_draws (1 / 2))
      (default_kwargs\<lparr>num_iterations := 0\<rparr>) 76 =
    create_class_visualization example_model (example_draws (1 / 2))
      (default_kwargs\<lparr>num_iterations := 0\<rparr>) 6"
    using per_draw by (simp add: Let_def)
  ultimately show ?thesis
    by (simp add: example_draws_def)
qed


subsection \<open>The clip interval is an invariant\<close>

lemma in_clip_interval_iff:
  "in_clip_interval E X \<longleftrightarrow>
     (\<forall>n h w c. valid4 X n h w c \<longrightarrow>
        clip_lo E c \<le> at4 X n h w c \<and> at4 X n h w c \<le> clip_hi E c)"
  by (auto simp: in_clip_interval_def valid4_def list_all_iff split: prod.splits)

lemma clip_bounds_ordered:
  assumes "0 < SQUEEZENET_STD E ! c"
  shows "clip_lo E c \<le> clip_hi E c"
  unfolding clip_lo_def clip_hi_def using assms by (intro divide_right_mono) simp_all

lemma np_clip_in_interval:
  assumes "shape4 X = (N, H, W, 3)" and "\<forall>c<3. 0 < SQUEEZENET_STD E ! c"
  shows "in_clip_interval E (np_clip X (clip_lo E) (clip_hi E))"
  using assms clip_bounds_ordered [of E]
  by (auto simp: in_clip_interval_iff valid4_def np_clip_def)

lemma reflect_index_less: "0 < n \<Longrightarrow> reflect_index n i < n"
  by (auto simp: reflect_index_def Let_def nat_less_iff)

lemma sum_list_pos_real:
  fixes xs :: "real list"
  assumes "xs \<noteq> []" and "\<forall>x\<in>set xs. 0 < x"
  shows "0 < sum_list xs"
  using assms by (induction xs) (auto intro: add_pos_nonneg sum_list_nonneg less_imp_le)

lemma gaussian_kernel1d_weights:
  "(\<forall>x\<in>set (gaussian_kernel1d sigma radius). 0 \<le> x) \<and>
   sum_list (gaussian_kernel1d sigma radius) = 1"
proof -
  define phi where
    "phi = map (\<lambda>x. exp (- (1 / 2) / (sigma * sigma) * (real_of_int x)\<^sup>2))
               [- int radius..int radius]"
  have ne: "phi \<noteq> []"
    by (simp add: phi_def)
  have pos: "\<forall>x\<in>set phi. 0 < x"
    by (auto simp: phi_def)
  have s: "0 < sum_list phi"
    using ne pos by (rule sum_list_pos_real)
  have k: "gaussian_kernel1d sigma radius = map (\<lambda>p. p / sum_list phi) phi"
    by (simp add: gaussian_kernel1d_def phi_def Let_def)
  have "sum_list (map (\<lambda>p. p / d) xs) = sum_list xs / d" for d :: real and xs
    by (induction xs) (simp_all add: add_divide_distrib)
  then have "sum_list (map (\<lambda>p. p / sum_list phi) phi) = sum_list phi / sum_list phi" .
  with s have "sum_list (gaussian_kernel1d sigma radius) = 1"
    by (simp add: k)
  moreover have "\<forall>x\<in>set (gaussian_kernel1d sigma radius). 0 \<le> x"
    using pos s by (auto simp: k intro!: divide_nonneg_pos less_imp_le)
  ultimately show ?thesis by simp
qed

lemma filter_weights_convex:
  "(\<forall>j<length (filter_weights sigma). 0 \<le> filter_weights sigma ! j) \<and>
   (\<Sum>j = 0..<length (filter_weights sigma). filter_weights sigma ! j) = 1"
proof -
  let ?ws = "filter_weights sigma"
  have mem: "\<forall>x\<in>set ?ws. 0 \<le> x" and total: "sum_list ?ws = 1"
    using gaussian_kernel1d_weights [of sigma "nat \<lfloor>4 * sigma + 1 / 2\<rfloor>"]
    by (simp_all add: filter_weights_def)
  have "\<forall>j<length ?ws. 0 \<le> ?ws ! j"
    using mem nth_mem by blast
  moreover have "(\<Sum>j = 0..<length ?ws. ?ws ! j) = 1"
    using total by (simp only: sum_list_sum_nth)
  ultimately show ?thesis by simp
qed

lemma correlate1d_bounds:
  assumes "0 < n" and "\<forall>k<n. lo \<le> line k \<and> line k \<le> hi"
  shows "lo \<le> correlate1d (filter_weights sigma) n line i \<and>
         correlate1d (filter_weights sigma) n line i \<le> hi"
proof -
  let ?ws = "filter_weights sigma"
  let ?v = "\<lambda>j. line (reflect_index n (int i + int j - int (length ?ws div 2)))"
  have nonneg: "\<And>j. j < length ?ws \<Longrightarrow> 0 \<le> ?ws ! j"
    and one: "(\<Sum>j = 0..<length ?ws. ?ws ! j) = 1"
    using filter_weights_convex [of sigma] by simp_all
  have v: "lo \<le> ?v j \<and> ?v j \<le> hi" for j
    using assms reflect_index_less [OF assms(1)] by simp
  have c: "correlate1d ?ws n line i = (\<Sum>j = 0..<length ?ws. ?ws ! j * ?v j)"
    by (simp add: correlate1d_def interv_sum_list_conv_sum_set_nat)
  have "(\<Sum>j = 0..<length ?ws. ?ws ! j * lo) \<le> (\<Sum>j = 0..<length ?ws. ?ws ! j * ?v j)"
    using nonneg v by (intro sum_mono mult_left_mono) simp_all
  moreover have "(\<Sum>j = 0..<length ?ws. ?ws ! j * ?v j) \<le> (\<Sum>j = 0..<length ?ws. ?ws ! j * hi)"
    using nonneg v by (intro sum_mono mult_left_mono) simp_all
  moreover have "(\<Sum>j = 0..<length ?ws. ?ws ! j * lo) = lo"
    "(\<Sum>j = 0..<length ?ws. ?ws ! j * hi) = hi"
    using one by (simp_all add: sum_distrib_right [symmetric])
  ultimately show ?thesis
    by (simp add: c)
qed

lemma blur_image_in_interval:
  assumes "in_clip_interval E X"
  shows "in_clip_interval E (blur_image X sigma)"
proof -
  obtain N H W C where sh: "shape4 X = (N, H, W, C)"
    by (metis prod_cases4)
  let ?Y = "gaussian_filter1d_axis1 X sigma"
  have X: "\<And>n h w c. n < N \<Longrightarrow> h < H \<Longrightarrow> w < W \<Longrightarrow> c < C \<Longrightarrow>
             clip_lo E c \<le> at4 X n h w c \<and> at4 X n h w c \<le> clip_hi E c"
    using assms by (simp add: in_clip_interval_iff valid4_def sh)
  have Y: "clip_lo E c \<le> at4 ?Y n h w c \<and> at4 ?Y n h w c \<le> clip_hi E c"
    if "n < N" "h < H" "w < W" "c < C" for n h w c
  proof -
    have "0 < H" using that by simp
    moreover have "\<forall>k<H. clip_lo E c \<le> at4 X n k w c \<and> at4 X n k w c \<le> clip_hi E c"
      using that X by simp
    ultimately have
      "clip_lo E c \<le> correlate1d (filter_weights sigma) H (\<lambda>k. at4 X n k w c) h \<and>
       correlate1d (filter_weights sigma) H (\<lambda>k. at4 X n k w c) h \<le> clip_hi E c"
      by (rule correlate1d_bounds)
    then show ?thesis
      by (simp add: gaussian_filter1d_axis1_def sh)
  qed
  have "clip_lo E c \<le> at4 (blur_image X sigma) n h w c \<and>
        at4 (blur_image X sigma) n h w c \<le> clip_hi E c"
    if "n < N" "h < H" "w < W" "c < C" for n h w c
  proof -
    have "0 < W" using that by simp
    moreover have "\<forall>k<W. clip_lo E c \<le> at4 ?Y n h k c \<and> at4 ?Y n h k c \<le> clip_hi E c"
      using that Y by simp
    ultimately have
      "clip_lo E c \<le> correlate1d (filter_weights sigma) W (\<lambda>k. at4 ?Y n h k c) w \<and>
       correlate1d (filter_weights sigma) W (\<lambda>k. at4 ?Y n h k c) w \<le> clip_hi E c"
      by (rule correlate1d_bounds)
    then show ?thesis
      by (simp add: blur_image_def gaussian_filter1d_axis2_def sh)
  qed
  then show ?thesis
    by (simp add: in_clip_interval_iff valid4_def sh)
qed

lemma clip_then_blur_in_interval:
  assumes "shape4 X = (N, H, W, 3)" and "\<forall>c<3. 0 < SQUEEZENET_STD E ! c"
  shows "in_clip_interval E (clip_then_blur E kw t X)"
  using np_clip_in_interval [OF assms]
  by (simp add: clip_then_blur_def Let_def blur_image_in_interval)

lemma ccv_loop_in_interval:
  assumes "ccv_loop M E kw ty t k X = Inr X'" and "\<forall>c<3. 0 < SQUEEZENET_STD E ! c"
    and "0 < k \<or> in_clip_interval E X"
  shows "in_clip_interval E X'"
  using assms(1,3)
proof (induction k arbitrary: t X)
  case 0
  then show ?case by simp
next
  case (Suc k)
  from Suc.prems(1) obtain X1 where
    it: "ccv_iteration M E kw ty t X = Inr X1" and
    rest: "ccv_loop M E kw ty (Suc t) k X1 = Inr X'"
    by (auto split: sum.splits)
  have "in_clip_interval E X1"
    using ccv_iteration_Inr [OF it] assms(2)
    by (simp add: clip_then_blur_in_interval [where N = 1 and H = 224 and W = 224])
  then show ?case
    using Suc.IH [OF rest] by simp
qed

text \<open>
  Claim C10. Every entry of the image that \<^verbatim>\<open>create_class_visualization\<close> returns lies in
  the clip interval \<open>[-MEAN / STD, (1 - MEAN) / STD]\<close> of its channel: the clip of each
  iteration establishes the bounds and the blur, a weighted average with nonnegative
  weights that sum to 1, keeps them. The standard deviations are positive; the run has
  at least one iteration, or else the image returned is the initial image and the claim
  is what \<^verbatim>\<open>preprocess_image\<close> made of the noise.
\<close>

theorem class_visualization_in_clip_interval:
  assumes "create_class_visualization M E kw target_y = Inr X"
    and "\<forall>c<3. 0 < SQUEEZENET_STD E ! c"
    and "0 < num_iterations kw \<or> in_clip_interval E (initial_image E)"
  shows "in_clip_interval E X"
proof -
  have run: "ccv_loop M E kw target_y 0 (nat (num_iterations kw)) (initial_image E) = Inr X"
    using assms(1) by (simp only: create_class_visualization_def)
  have "0 < nat (num_iterations kw) \<or> in_clip_interval E (initial_image E)"
    using assms(3) by simp
  with run assms(2) show ?thesis
    by (rule ccv_loop_in_interval)
qed

theorem class_visualization_in_clip_interval_witness:
  "\<exists>X. create_class_visualization example_model example_environment default_kwargs 76 = Inr X \<and>
       in_clip_interval example_environment X"
proof -
  obtain X where X: "create_class_visualization example_model example_environment
      default_kwargs 76 = Inr X"
    using example_returns by blast
  have "in_clip_interval example_environment X"
    using X
    by (rule class_visualization_in_clip_interval)
       (simp_all add: example_environment_def default_kwargs_def less_Suc_eq numeral_3_eq_3)
  with X show ?thesis by blast
qed

end
